theory Spec2Isabelle
  imports Main
begin

section \<open>Messages and conversation state\<close>

text \<open>
  The message classes of \<^verbatim>\<open>langchain_core.messages\<close> that \<^verbatim>\<open>graph.py\<close> tells apart with
  \<^verbatim>\<open>isinstance\<close>: human, AI, system and tool messages. A message carries its text
  content and its \<^verbatim>\<open>id\<close>, which is \<open>None\<close> for a message built from its content alone
  (\<^verbatim>\<open>AIMessage(content=...)\<close>) and is set for every message stored in a thread.
\<close>

datatype message =
    is_HumanMessage: HumanMessage (content: string) (msg_id: "string option")
  | is_AIMessage: AIMessage (content: string) (msg_id: "string option")
  | is_SystemMessage: SystemMessage (content: string) (msg_id: "string option")
  | is_ToolMessage: ToolMessage (content: string) (msg_id: "string option")

fun set_id :: "string \<Rightarrow> message \<Rightarrow> message" where
  "set_id i (HumanMessage c old) = HumanMessage c (Some i)"
| "set_id i (AIMessage c old) = AIMessage c (Some i)"
| "set_id i (SystemMessage c old) = SystemMessage c (Some i)"
| "set_id i (ToolMessage c old) = ToolMessage c (Some i)"

text \<open>
  \<^verbatim>\<open>class State(MessagesState): summary: str\<close>. The key \<^verbatim>\<open>summary\<close> is absent until a
  summarization has written it, which is why the code reads it with
  \<^verbatim>\<open>state.get("summary", "")\<close>; an absent key is \<open>None\<close>.
\<close>

record state =
  messages :: "message list"
  summary :: "string option"

definition get_summary :: "state \<Rightarrow> string" where
  "get_summary st = (case summary st of None \<Rightarrow> [] | Some s \<Rightarrow> s)"

text \<open>
  What a node returns: a partial state. \<^verbatim>\<open>call_model\<close> returns only the key
  \<^verbatim>\<open>messages\<close>; \<^verbatim>\<open>summarize_conversation\<close> returns both keys.
\<close>

record update =
  upd_messages :: "message list"
  upd_summary :: "string option"

text \<open>
  Exceptions that leave a node: the \<^verbatim>\<open>IndexError\<close> of \<^verbatim>\<open>[-1]\<close> on an empty list, and
  whatever an external capability raises (with its message).
\<close>

datatype error = IndexError | Raised string

text \<open>
  The observable effects of a node, in order: an invocation of the ReAct agent with
  its input, an invocation of the chat model with its input, and a call of
  \<^verbatim>\<open>st.error\<close>.
\<close>

datatype event =
    AgentInvoke "message list"
  | ChatModelInvoke "message list"
  | StError string

type_synonym react_agent_executor = "message list \<Rightarrow> error + message list"
type_synonym chat_model = "message list \<Rightarrow> error + string"

subsection \<open>Python slices\<close>

text \<open>
  \<^verbatim>\<open>xs[-n:]\<close> for \<open>n > 0\<close>: the last \<open>n\<close> elements, or all of \<open>xs\<close> when it has fewer.
  \<^verbatim>\<open>xs[:-n]\<close> for \<open>n > 0\<close>: all but the last \<open>n\<close> elements, or nothing when it has no more
  than \<open>n\<close>. Subtraction on \<open>nat\<close> stops at \<open>0\<close>, which is what the slice does.
\<close>

definition slice_last :: "nat \<Rightarrow> 'a list \<Rightarrow> 'a list" where
  "slice_last n xs = drop (length xs - n) xs"

definition slice_butlast :: "nat \<Rightarrow> 'a list \<Rightarrow> 'a list" where
  "slice_butlast n xs = take (length xs - n) xs"

text \<open>\<^verbatim>\<open>sep.join(parts)\<close>.\<close>

fun join :: "string \<Rightarrow> string list \<Rightarrow> string" where
  "join sep [] = []"
| "join sep [p] = p"
| "join sep (p # q # ps) = p @ sep @ join sep (q # ps)"

definition newline :: string where
  "newline = [CHR 0x0A]"

section \<open>The conversation node: \<^verbatim>\<open>call_model\<close>\<close>

definition system_message_content :: "string \<Rightarrow> string" where
  "system_message_content s =
     ''Here is a summary of the conversation so far: '' @ s @
     ''. Use this to inform your response.''"

text \<open>Lines 22 to 32: the list \<^verbatim>\<open>messages_for_react_agent_input\<close>.\<close>

definition messages_for_react_agent_input :: "state \<Rightarrow> message list" where
  "messages_for_react_agent_input st =
     (let summary = get_summary st;
          current_messages = messages st;
          last_messages_to_send = slice_last 5 current_messages
      in (if summary \<noteq> [] then [SystemMessage (system_message_content summary) None] else [])
         @ last_messages_to_send)"

definition fallback_message :: message where
  "fallback_message = AIMessage ''Sorry, I encountered an issue.'' None"

definition call_model :: "state \<Rightarrow> react_agent_executor \<Rightarrow> event list \<times> (error + update)" where
  "call_model st react_agent_executor =
     (let agent_input = messages_for_react_agent_input st in
      case react_agent_executor agent_input of
        Inl e \<Rightarrow> ([AgentInvoke agent_input], Inl e)
      | Inr response_messages \<Rightarrow>
          (if response_messages = [] then ([AgentInvoke agent_input], Inl IndexError)
           else
             let ai_response_message = last response_messages in
             if \<not> is_AIMessage ai_response_message then
               ([AgentInvoke agent_input,
                 StError ''ReAct agent did not return an AIMessage as expected.''],
                Inr \<lparr>upd_messages = [fallback_message], upd_summary = None\<rparr>)
             else
               ([AgentInvoke agent_input],
                Inr \<lparr>upd_messages = [ai_response_message], upd_summary = None\<rparr>)))"

section \<open>The summarization node: \<^verbatim>\<open>summarize_conversation\<close>\<close>

text \<open>Lines 63 to 65: the selection, then the cap.\<close>

definition messages_to_summarize :: "state \<Rightarrow> message list" where
  "messages_to_summarize st =
     (let current_messages = messages st;
          selected = slice_butlast 2 current_messages
      in if length selected > 10 then slice_last 10 selected else selected)"

text \<open>
  Lines 77 to 81: the loop over the selected messages, appending to
  \<^verbatim>\<open>summary_prompt_parts\<close>. A message that is neither a human nor an AI message
  appends nothing.
\<close>

fun transcript_loop :: "message list \<Rightarrow> string list \<Rightarrow> string list" where
  "transcript_loop [] summary_prompt_parts = summary_prompt_parts"
| "transcript_loop (msg # rest) summary_prompt_parts =
     transcript_loop rest
       (if is_HumanMessage msg then summary_prompt_parts @ [''User: '' @ content msg]
        else if is_AIMessage msg then summary_prompt_parts @ [''Assistant: '' @ content msg]
        else summary_prompt_parts)"

text \<open>Lines 72 to 85: the prompt, over the summary and the selected messages.\<close>

definition final_summary_prompt :: "string \<Rightarrow> message list \<Rightarrow> string" where
  "final_summary_prompt current_summary selected =
     (let parts0 =
            (if current_summary \<noteq> []
             then [''This is the current summary of the conversation: '' @ current_summary
                   @ newline]
             else []);
          parts1 = parts0 @ [''Based on the following recent messages:'' @ newline];
          parts2 = transcript_loop selected parts1;
          parts3 = parts2 @
            [newline @ ''Please update or create a concise summary of the entire conversation.'']
      in join newline parts3)"

definition summarize_conversation :: "state \<Rightarrow> chat_model \<Rightarrow> event list \<times> (error + update)" where
  "summarize_conversation st chat_model =
     (let summary = get_summary st;
          selected = messages_to_summarize st
      in if selected = [] then
           ([], Inr \<lparr>upd_messages = [], upd_summary = Some summary\<rparr>)
         else
           let messages_for_summary_llm =
                 [HumanMessage (final_summary_prompt summary selected) None]
           in case chat_model messages_for_summary_llm of
                Inl e \<Rightarrow> ([ChatModelInvoke messages_for_summary_llm], Inl e)
              | Inr response_content \<Rightarrow>
                  ([ChatModelInvoke messages_for_summary_llm],
                   Inr \<lparr>upd_messages = [], upd_summary = Some response_content\<rparr>))"

section \<open>Routing and the compiled workflow\<close>

datatype branch = To_summarize_conversation | To_END

definition should_continue :: "state \<Rightarrow> branch" where
  "should_continue st =
     (if length (messages st) > 6 then To_summarize_conversation else To_END)"

subsection \<open>The reducer of the channel \<^verbatim>\<open>messages\<close>\<close>

text \<open>
  \<^verbatim>\<open>State\<close> extends \<^verbatim>\<open>MessagesState\<close>, whose channel \<^verbatim>\<open>messages\<close> is reduced by
  \<^verbatim>\<open>add_messages(left, right)\<close> of the graph library: every message without an id is
  given a new \<^verbatim>\<open>uuid4\<close>; then each message of \<^verbatim>\<open>right\<close> replaces the message of the
  same id if the thread has one, and is appended otherwise.

  \<open>complete_ids uuid k\<close> is the first step on the returned messages, the \<open>n\<close>-th id the
  generator hands out being \<open>uuid n\<close> and \<open>k\<close> the number handed out so far. The
  messages of a stored thread have their ids already, each having passed through the
  reducer, so the step does nothing on \<^verbatim>\<open>left\<close>.
\<close>

fun complete_ids :: "(nat \<Rightarrow> string) \<Rightarrow> nat \<Rightarrow> message list \<Rightarrow> message list" where
  "complete_ids uuid k [] = []"
| "complete_ids uuid k (m # ms) =
     (case msg_id m of
        Some i \<Rightarrow> m # complete_ids uuid k ms
      | None \<Rightarrow> set_id (uuid k) m # complete_ids uuid (Suc k) ms)"

text \<open>
  The second step, for one message of \<^verbatim>\<open>right\<close>. The library looks the id up in a
  dict built over the list from left to right, so of several messages with the id the
  last one is replaced.
\<close>

fun replace_first :: "string \<Rightarrow> message \<Rightarrow> message list \<Rightarrow> message list option" where
  "replace_first i m [] = None"
| "replace_first i m (x # xs) =
     (if msg_id x = Some i then Some (m # xs)
      else map_option (Cons x) (replace_first i m xs))"

definition merge_message :: "message list \<Rightarrow> message \<Rightarrow> message list" where
  "merge_message merged m =
     (case msg_id m of
        None \<Rightarrow> merged @ [m]
      | Some i \<Rightarrow>
          (case replace_first i m (rev merged) of
             None \<Rightarrow> merged @ [m]
           | Some replaced \<Rightarrow> rev replaced))"

definition add_messages :: "message list \<Rightarrow> message list \<Rightarrow> message list" where
  "add_messages left right = foldl merge_message left right"

text \<open>
  How the graph merges a node's return value, its ids completed, into the state: the
  channel \<^verbatim>\<open>messages\<close> through its reducer; the channel \<^verbatim>\<open>summary\<close>, which has no
  reducer, is overwritten when the key is returned.
\<close>

definition apply_update :: "state \<Rightarrow> update \<Rightarrow> state" where
  "apply_update st u =
     st\<lparr>messages := add_messages (messages st) (upd_messages u),
        summary := (case upd_summary u of None \<Rightarrow> summary st | Some s \<Rightarrow> Some s)\<rparr>"

text \<open>
  The conditional edge of line 242 and the edge of line 243: after the node
  \<^verbatim>\<open>conversation\<close>, \<^verbatim>\<open>should_continue\<close> chooses between the node
  \<^verbatim>\<open>summarize_conversation\<close>, whose return value is merged before the run ends, and the
  end of the run. The summarizer returns no message, so there is no id to complete.
\<close>

definition after_conversation :: "state \<Rightarrow> chat_model \<Rightarrow> event list \<times> (error + state)" where
  "after_conversation st chat_model =
     (case should_continue st of
        To_END \<Rightarrow> ([], Inr st)
      | To_summarize_conversation \<Rightarrow>
          (case summarize_conversation st chat_model of
             (ev, Inl e) \<Rightarrow> (ev, Inl e)
           | (ev, Inr u) \<Rightarrow> (ev, Inr (apply_update st u))))"

text \<open>
  One run of the workflow of lines 238 to 243 on the input of \<^verbatim>\<open>app.py\<close> line 331,
  \<^verbatim>\<open>app.stream({"messages": [HumanMessage(content=prompt)]}, config)\<close>, compiled with the
  checkpointer of line 246. The graph merges the input into the state and saves a
  checkpoint; it runs the node \<^verbatim>\<open>conversation\<close>, merges its return value and saves a
  checkpoint; then it follows the conditional edge and saves the state it ends with.
  An exception of a node ends the run and leaves the last checkpoint as the stored
  state. The result is the events, the stored state and the exception, if any.
\<close>

definition run_turn ::
  "(nat \<Rightarrow> string) \<Rightarrow> state \<Rightarrow> string \<Rightarrow> react_agent_executor \<Rightarrow> chat_model
     \<Rightarrow> event list \<times> state \<times> error option" where
  "run_turn uuid st prompt react_agent_executor chat_model =
     (let st1 = apply_update st
                  \<lparr>upd_messages = complete_ids uuid 0 [HumanMessage prompt None],
                   upd_summary = None\<rparr>
      in case call_model st1 react_agent_executor of
           (ev1, Inl e) \<Rightarrow> (ev1, st1, Some e)
         | (ev1, Inr u1) \<Rightarrow>
             (let st2 = apply_update st1
                          (u1\<lparr>upd_messages := complete_ids uuid 1 (upd_messages u1)\<rparr>)
              in case after_conversation st2 chat_model of
                   (ev2, Inl e) \<Rightarrow> (ev1 @ ev2, st2, Some e)
                 | (ev2, Inr st3) \<Rightarrow> (ev1 @ ev2, st3, None)))"

section \<open>The memory store\<close>

text \<open>A Python \<^verbatim>\<open>dict\<close> from strings to strings, and \<^verbatim>\<open>d.get(k, default)\<close>.\<close>

type_synonym dict = "(string \<times> string) list"

definition dict_get :: "dict \<Rightarrow> string \<Rightarrow> string \<Rightarrow> string" where
  "dict_get d k dflt = (case map_of d k of None \<Rightarrow> dflt | Some v \<Rightarrow> v)"

record memory_record =
  item_namespace :: "string \<times> string"
  item_key :: string
  item_value :: dict
  item_index :: "string list"

type_synonym store = "memory_record list"

text \<open>
  The embedding similarity of a query and an indexed text, a capability of the
  configured embedding model: a larger number is a closer match.
\<close>

type_synonym similarity = "string \<Rightarrow> string \<Rightarrow> nat"

text \<open>
  The two operations of the store that \<^verbatim>\<open>search_web\<close> calls,
  \<^verbatim>\<open>store.put(namespace=, key=, value=, index=)\<close> and
  \<^verbatim>\<open>store.search(namespace, query=, limit=)\<close>, over the store's contents \<open>'s\<close>. The tool
  is written against this interface; the class behind it is chosen in \<^verbatim>\<open>app.py\<close>.
\<close>

record 's store_ops =
  put :: "'s \<Rightarrow> string \<times> string \<Rightarrow> string \<Rightarrow> dict \<Rightarrow> string list \<Rightarrow> 's"
  search :: "'s \<Rightarrow> string \<times> string \<Rightarrow> string \<Rightarrow> nat \<Rightarrow> memory_record list"

text \<open>
  Modelled from the spec: \<^verbatim>\<open>store.put(namespace, key, value, index)\<close> of the memory store
  (class \<^verbatim>\<open>SqliteVecStore\<close>, which is not among the source files). The spec describes
  the store as a namespaced key/value store, an append-only log with overwrite by key.
\<close>

definition store_put ::
  "store \<Rightarrow> string \<times> string \<Rightarrow> string \<Rightarrow> dict \<Rightarrow> string list \<Rightarrow> store" where
  "store_put s ns k v idx =
     (let r = \<lparr>item_namespace = ns, item_key = k, item_value = v, item_index = idx\<rparr>;
          same = (\<lambda>x. item_namespace x = ns \<and> item_key x = k)
      in if list_ex same s then map (\<lambda>x. if same x then r else x) s else s @ [r])"

definition indexed_text :: "memory_record \<Rightarrow> string" where
  "indexed_text r = concat (map (\<lambda>f. dict_get (item_value r) f []) (item_index r))"

text \<open>
  Modelled from the spec: \<^verbatim>\<open>store.search(namespace, query=..., limit=...)\<close> of the memory
  store (class \<^verbatim>\<open>SqliteVecStore\<close>, which is not among the source files). The spec gives
  \<open>search(namespace, query, limit) -> ranked records\<close>, a semantic search over the
  indexed fields of the records of the namespace: the records of the namespace, the
  closest match first, cut at \<open>limit\<close>.
\<close>

definition store_search ::
  "similarity \<Rightarrow> store \<Rightarrow> string \<times> string \<Rightarrow> string \<Rightarrow> nat \<Rightarrow> memory_record list" where
  "store_search sim s ns query limit =
     take limit
       (sort_key (\<lambda>r. - int (sim query (indexed_text r)))
          (filter (\<lambda>r. item_namespace r = ns) s))"

text \<open>
  Modelled from the spec: the store that \<^verbatim>\<open>app.py\<close> constructs (class
  \<^verbatim>\<open>SqliteVecStore\<close>, which is not among the source files), with the embedding
  similarity it is configured with.
\<close>

definition sqlite_vec_store :: "similarity \<Rightarrow> store store_ops" where
  "sqlite_vec_store sim = \<lparr>put = store_put, search = store_search sim\<rparr>"

section \<open>The tool \<^verbatim>\<open>search_web\<close>\<close>

text \<open>
  \<^verbatim>\<open>str(i)\<close> of a natural number, for the f-string of the key. \<open>digit_char\<close> is only
  applied to numbers below 10.
\<close>

definition digit_char :: "nat \<Rightarrow> char" where
  "digit_char d = ''0123456789'' ! d"

fun str_nat :: "nat \<Rightarrow> string" where
  "str_nat n = (if n < 10 then [digit_char n] else str_nat (n div 10) @ [digit_char (n mod 10)])"

datatype timelimit = Day | Week | Month | Year

text \<open>
  \<^verbatim>\<open>DDGS().text(query, max_results=, timelimit=)\<close> of the package \<^verbatim>\<open>ddgs\<close> imported at
  line 12, over what the search engines behind it answer. The client passes an
  exception of the engines on, returns the results found, and raises
  \<^verbatim>\<open>DDGSException("No results found.")\<close> when there is none: it never returns an empty
  list.
\<close>

definition DDGS_text ::
  "(string \<Rightarrow> nat \<Rightarrow> timelimit \<Rightarrow> error + dict list)
     \<Rightarrow> string \<Rightarrow> nat \<Rightarrow> timelimit \<Rightarrow> error + dict list" where
  "DDGS_text engines query max_results timelimit =
     (case engines query max_results timelimit of
        Inl e \<Rightarrow> Inl e
      | Inr found \<Rightarrow> if found = [] then Inl (Raised ''No results found.'') else Inr found)"

text \<open>
  What the closure of \<^verbatim>\<open>create_graph\<close> and the outside world give the tool: the answer
  of the search engines; \<^verbatim>\<open>datetime.now().isoformat()\<close>; the operations of \<^verbatim>\<open>store\<close>;
  and the variables \<^verbatim>\<open>user_id\<close>, \<^verbatim>\<open>search_method_rag\<close> and \<^verbatim>\<open>num_results\<close>.
\<close>

record 's search_env =
  search_engines :: "string \<Rightarrow> nat \<Rightarrow> timelimit \<Rightarrow> error + dict list"
  now_isoformat :: string
  store_api :: "'s store_ops"
  user_id :: string
  search_method_rag :: bool
  num_results :: nat

text \<open>The key and the value of lines 131 to 139, for the result number \<open>i\<close>.\<close>

definition result_key :: "string \<Rightarrow> string \<Rightarrow> nat \<Rightarrow> string" where
  "result_key query timestamp i = query @ ''_'' @ timestamp @ ''_'' @ str_nat i"

definition result_value :: "string \<Rightarrow> string \<Rightarrow> dict \<Rightarrow> dict" where
  "result_value query timestamp result =
     [(''query'', query),
      (''title'', dict_get result ''title'' []),
      (''href'', dict_get result ''href'' []),
      (''body'', dict_get result ''body'' []),
      (''timestamp'', timestamp),
      (''text'', dict_get result ''title'' [] @ '' '' @ dict_get result ''body'' [])]"

text \<open>Lines 130 to 146: the loop over \<^verbatim>\<open>enumerate(results)\<close>, one \<^verbatim>\<open>store.put\<close> each.\<close>

fun put_results ::
  "'s store_ops \<Rightarrow> 's \<Rightarrow> string \<times> string \<Rightarrow> string \<Rightarrow> string \<Rightarrow> nat \<Rightarrow> dict list \<Rightarrow> 's" where
  "put_results api s ns query timestamp i [] = s"
| "put_results api s ns query timestamp i (result # rest) =
     put_results api
       (put api s ns (result_key query timestamp i) (result_value query timestamp result)
          [''text''])
       ns query timestamp (Suc i) rest"

datatype search_output = Semantic_results "memory_record list" | Raw_results "dict list"

text \<open>The tool returns the store as it leaves it, and its return value or exception.\<close>

definition search_web ::
  "'s search_env \<Rightarrow> 's \<Rightarrow> string \<Rightarrow> timelimit \<Rightarrow> 's \<times> (error + search_output)" where
  "search_web env s query timelimit =
     (case DDGS_text (search_engines env) query (num_results env) timelimit of
        Inl e \<Rightarrow> (s, Inl e)
      | Inr results \<Rightarrow>
          (let timestamp = now_isoformat env;
               namespace = (''web_search'', user_id env);
               s' = put_results (store_api env) s namespace query timestamp 0 results
           in if search_method_rag env
              then (s', Inr (Semantic_results (search (store_api env) s' namespace query 1)))
              else (s', Inr (Raw_results results))))"

section \<open>The tool \<^verbatim>\<open>fetch_url_content\<close>\<close>

text \<open>
  The calls inside the \<^verbatim>\<open>try\<close> block, each of which returns or raises (\<open>Inl\<close> carries
  \<^verbatim>\<open>str(e)\<close> of the exception): \<^verbatim>\<open>requests.get(url, timeout=timeout)\<close> giving the
  response, \<^verbatim>\<open>resp.raise_for_status()\<close>, \<^verbatim>\<open>Document(resp.text).title()\<close>,
  \<^verbatim>\<open>Document(resp.text).summary()\<close>, and
  \<^verbatim>\<open>BeautifulSoup(html, 'html.parser').get_text(separator='\n').strip()\<close>.
\<close>

record 'resp fetch_env =
  requests_get :: "string \<Rightarrow> int \<Rightarrow> string + 'resp"
  raise_for_status :: "'resp \<Rightarrow> string + unit"
  resp_text :: "'resp \<Rightarrow> string"
  doc_title :: "string \<Rightarrow> string + string"
  doc_summary :: "string \<Rightarrow> string + string"
  soup_get_text :: "string \<Rightarrow> string + string"

text \<open>Lines 172 to 183: the body of the loop, the entry one URL contributes.\<close>

definition fetch_entry :: "'resp fetch_env \<Rightarrow> int \<Rightarrow> string \<Rightarrow> dict" where
  "fetch_entry env timeout url =
     (case requests_get env url timeout of
        Inl e \<Rightarrow> [(''url'', url), (''error'', e)]
      | Inr resp \<Rightarrow>
     (case raise_for_status env resp of
        Inl e \<Rightarrow> [(''url'', url), (''error'', e)]
      | Inr _ \<Rightarrow>
     (case doc_title env (resp_text env resp) of
        Inl e \<Rightarrow> [(''url'', url), (''error'', e)]
      | Inr title \<Rightarrow>
     (case doc_summary env (resp_text env resp) of
        Inl e \<Rightarrow> [(''url'', url), (''error'', e)]
      | Inr html \<Rightarrow>
     (case soup_get_text env html of
        Inl e \<Rightarrow> [(''url'', url), (''error'', e)]
      | Inr text \<Rightarrow> [(''url'', url), (''title'', title), (''content'', text)])))))"

text \<open>Lines 170 to 184: the loop over \<^verbatim>\<open>urls\<close>, appending to \<^verbatim>\<open>results\<close>.\<close>

fun fetch_loop :: "'resp fetch_env \<Rightarrow> int \<Rightarrow> string list \<Rightarrow> dict list \<Rightarrow> dict list" where
  "fetch_loop env timeout [] results = results"
| "fetch_loop env timeout (url # rest) results =
     fetch_loop env timeout rest (results @ [fetch_entry env timeout url])"

definition fetch_url_content :: "'resp fetch_env \<Rightarrow> string list \<Rightarrow> int \<Rightarrow> dict list" where
  "fetch_url_content env urls timeout = fetch_loop env timeout urls []"

section \<open>Example values\<close>

text \<open>
  A thread of four completed turns with the agent \<open>echo_agent\<close>, which answers every
  input with an AI message of its own id; an agent whose final message is a tool
  message; an agent that raises; an agent that answers with a message of the thread;
  a generator of ids; a chat model that returns a fixed summary; and one that returns
  the prompt it is given.
\<close>

definition example_thread :: "message list" where
  "example_thread =
     [HumanMessage ''u0'' (Some ''id-u0''), AIMessage ''ok'' (Some ''run-u0''),
      HumanMessage ''u1'' (Some ''id-u1''), AIMessage ''ok'' (Some ''run-u1''),
      HumanMessage ''u2'' (Some ''id-u2''), AIMessage ''ok'' (Some ''run-u2''),
      HumanMessage ''u3'' (Some ''id-u3''), AIMessage ''ok'' (Some ''run-u3'')]"

definition echo_agent :: react_agent_executor where
  "echo_agent agent_input =
     Inr (agent_input @ [AIMessage ''ok'' (Some (''run-'' @ content (last agent_input)))])"




definition example_uuid :: "nat \<Rightarrow> string" where
  "example_uuid n = ''uuid-'' @ str_nat n"

definition fixed_chat_model :: chat_model where
  "fixed_chat_model prompt_messages = Inr ''a summary''"

definition prompt_chat_model :: chat_model where
  "prompt_chat_model prompt_messages = Inr (concat (map content prompt_messages))"

text \<open>
  A store that already holds one record of an earlier web search of the user
  \<open>alice\<close>, a similarity that ranks a text equal to the query above every other text,
  and an environment of \<^verbatim>\<open>search_web\<close> over the answer of the search engines and the
  mode.
\<close>

definition exact_match_similarity :: similarity where
  "exact_match_similarity query indexed = (if query = indexed then 1 else 0)"

definition earlier_record :: memory_record where
  "earlier_record =
     \<lparr>item_namespace = (''web_search'', ''alice''),
      item_key = ''rust_2024-01-01T09:00:00_0'',
      item_value =
        [(''query'', ''rust''), (''title'', ''rust''), (''href'', ''http://old.example''),
         (''body'', ''release''), (''timestamp'', ''2024-01-01T09:00:00''),
         (''text'', ''rust release'')],
      item_index = [''text'']\<rparr>"

definition example_search_env :: "dict list \<Rightarrow> bool \<Rightarrow> store search_env" where
  "example_search_env found rag =
     \<lparr>search_engines = (\<lambda>query max_results timelimit. Inr found),
      now_isoformat = ''2024-01-02T09:00:00'',
      store_api = sqlite_vec_store exact_match_similarity,
      user_id = ''alice'',
      search_method_rag = rag,
      num_results = 5\<rparr>"

text \<open>
  A world for \<^verbatim>\<open>fetch_url_content\<close> in which one host answers with a page and every
  other request fails to connect.
\<close>

definition example_fetch_env :: "string fetch_env" where
  "example_fetch_env =
     \<lparr>requests_get = (\<lambda>url timeout.
        if url = ''http://good.example'' then Inr ''<p>page</p>''
        else Inl ''connection refused''),
      raise_for_status = (\<lambda>resp. Inr ()),
      resp_text = (\<lambda>resp. resp),
      doc_title = (\<lambda>html. Inr ''Title''),
      doc_summary = (\<lambda>html. Inr html),
      soup_get_text = (\<lambda>html. Inr ''page'')\<rparr>"

section \<open>Properties of the slices and of the selection\<close>

lemma slice_last_length: "length (slice_last n xs) = min n (length xs)"
  by (simp add: slice_last_def)

lemma slice_butlast_length: "length (slice_butlast n xs) = length xs - n"
  by (simp add: slice_butlast_def)

lemma slice_last_suffix: "\<exists>older. xs = older @ slice_last n xs"
  unfolding slice_last_def by (metis append_take_drop_id)

lemma slice_butlast_prefix: "xs = slice_butlast n xs @ slice_last n xs"
  by (simp add: slice_butlast_def slice_last_def)

lemma slice_last_snoc:
  "0 < n \<Longrightarrow> slice_last n (xs @ [x]) \<noteq> [] \<and> last (slice_last n (xs @ [x])) = x"
  by (simp add: slice_last_def)

lemma messages_to_summarize_eq:
  "messages_to_summarize st = slice_last 10 (slice_butlast 2 (messages st))"
  by (simp add: messages_to_summarize_def Let_def slice_last_def)

lemma messages_to_summarize_length:
  "length (messages_to_summarize st) = min 10 (length (messages st) - 2)"
  by (simp add: messages_to_summarize_eq slice_last_length slice_butlast_length)

lemma messages_to_summarize_position:
  "\<exists>older current.
     messages st = older @ messages_to_summarize st @ current \<and>
     length current = min 2 (length (messages st))"
proof -
  let ?ms = "messages st"
  obtain older where o: "slice_butlast 2 ?ms = older @ slice_last 10 (slice_butlast 2 ?ms)"
    using slice_last_suffix by blast
  have "?ms = slice_butlast 2 ?ms @ slice_last 2 ?ms"
    by (rule slice_butlast_prefix)
  with o have "?ms = older @ messages_to_summarize st @ slice_last 2 ?ms"
    by (metis append.assoc messages_to_summarize_eq)
  moreover have "length (slice_last 2 ?ms) = min 2 (length ?ms)"
    by (rule slice_last_length)
  ultimately show ?thesis by blast
qed

lemma messages_to_summarize_Nil:
  "messages_to_summarize st = [] \<longleftrightarrow> length (messages st) \<le> 2"
proof -
  have "messages_to_summarize st = [] \<longleftrightarrow> length (messages_to_summarize st) = 0" by simp
  also have "\<dots> \<longleftrightarrow> length (messages st) \<le> 2"
    unfolding messages_to_summarize_length by auto
  finally show ?thesis .
qed

lemma transcript_loop_filter:
  "transcript_loop sel parts =
     parts @ map (\<lambda>m. (if is_HumanMessage m then ''User: '' else ''Assistant: '') @ content m)
               (filter (\<lambda>m. is_HumanMessage m \<or> is_AIMessage m) sel)"
  by (induction sel arbitrary: parts) auto

lemma final_summary_prompt_explicit:
  "final_summary_prompt s sel =
     join newline
       ((if s = [] then []
         else [''This is the current summary of the conversation: '' @ s @ newline]) @
        [''Based on the following recent messages:'' @ newline] @
        map (\<lambda>m. (if is_HumanMessage m then ''User: '' else ''Assistant: '') @ content m)
          (filter (\<lambda>m. is_HumanMessage m \<or> is_AIMessage m) sel) @
        [newline @ ''Please update or create a concise summary of the entire conversation.''])"
  by (simp add: final_summary_prompt_def transcript_loop_filter Let_def)

section \<open>Properties of the reducer\<close>

lemma set_id_simps: "msg_id (set_id i m) = Some i" "content (set_id i m) = content m"
  "is_AIMessage (set_id i m) = is_AIMessage m" "is_HumanMessage (set_id i m) = is_HumanMessage m"
  by (cases m; simp)+

lemma replace_first_None:
  "replace_first i m xs = None \<longleftrightarrow> Some i \<notin> msg_id ` set xs"
  by (induction xs) auto

lemma merge_message_fresh:
  "msg_id m \<notin> msg_id ` set merged \<Longrightarrow> merge_message merged m = merged @ [m]"
proof (cases "msg_id m")
  case None
  then show ?thesis by (simp add: merge_message_def)
next
  case (Some i)
  assume "msg_id m \<notin> msg_id ` set merged"
  with Some have "replace_first i m (rev merged) = None"
    by (simp add: replace_first_None)
  with Some show ?thesis by (simp add: merge_message_def)
qed

lemma add_messages_Nil: "add_messages left [] = left"
  by (simp add: add_messages_def)

lemma add_messages_single: "add_messages left [m] = merge_message left m"
  by (simp add: add_messages_def)



section \<open>The conditional edge\<close>

lemma after_conversation_messages:
  "after_conversation st chat = (ev, Inr st') \<Longrightarrow> messages st' = messages st"
  by (auto simp add: after_conversation_def summarize_conversation_def Let_def apply_update_def
      add_messages_Nil split: branch.splits sum.splits if_splits)


lemma user_message_stored:
  "Some i \<notin> msg_id ` set (messages st) \<Longrightarrow>
     apply_update st \<lparr>upd_messages = [HumanMessage prompt (Some i)], upd_summary = None\<rparr> =
     st\<lparr>messages := messages st @ [HumanMessage prompt (Some i)]\<rparr>"
  by (simp add: apply_update_def add_messages_single merge_message_fresh)

text \<open>
  Claim C2. The trigger is exact on the message count. On a state with at most 6
  messages \<^verbatim>\<open>should_continue\<close> returns the end of the run, and the conditional edge
  ends the run with the state as it is and without any call of the chat model. On a
  state with more than 6 messages (from 7 on) it returns the branch
  \<^verbatim>\<open>summarize_conversation\<close>, and the edge calls the chat model once, with the
  summarization prompt.
\<close>

theorem summarization_trigger_exact:
  "(length (messages st) \<le> 6 \<longrightarrow>
      should_continue st = To_END \<and> after_conversation st chat = ([], Inr st)) \<and>
   (6 < length (messages st) \<longrightarrow>
      should_continue st = To_summarize_conversation \<and>
      fst (after_conversation st chat) =
        [ChatModelInvoke
           [HumanMessage (final_summary_prompt (get_summary st) (messages_to_summarize st))
              None]])"
proof (intro conjI impI)
  assume "length (messages st) \<le> 6"
  then show "should_continue st = To_END"
    by (simp add: should_continue_def)
  then show "after_conversation st chat = ([], Inr st)"
    by (simp add: after_conversation_def)
next
  assume gt: "6 < length (messages st)"
  then show sc: "should_continue st = To_summarize_conversation"
    by (simp add: should_continue_def)
  from gt have ne: "messages_to_summarize st \<noteq> []"
    by (simp add: messages_to_summarize_Nil)
  show "fst (after_conversation st chat) =
        [ChatModelInvoke
           [HumanMessage (final_summary_prompt (get_summary st) (messages_to_summarize st))
              None]]"
    using sc ne
    by (simp add: after_conversation_def summarize_conversation_def Let_def split: sum.splits)
qed

theorem summarization_trigger_exact_witness:
  "should_continue \<lparr>messages = take 6 example_thread, summary = None\<rparr> = To_END \<and>
   after_conversation \<lparr>messages = take 6 example_thread, summary = None\<rparr> fixed_chat_model =
     ([], Inr \<lparr>messages = take 6 example_thread, summary = None\<rparr>) \<and>
   should_continue \<lparr>messages = take 7 example_thread, summary = None\<rparr> =
     To_summarize_conversation"
  using summarization_trigger_exact
          [of "\<lparr>messages = take 6 example_thread, summary = None\<rparr>" fixed_chat_model]
        summarization_trigger_exact
          [of "\<lparr>messages = take 7 example_thread, summary = None\<rparr>" fixed_chat_model]
  by (simp add: example_thread_def)

text \<open>
  Claim C6. Whenever \<^verbatim>\<open>summarize_conversation\<close> returns, the \<^verbatim>\<open>messages\<close> component of
  its return value is the empty list, so merging it leaves the messages of the state,
  and their count, as they were. It fails to return only when the selection is not
  empty and the chat model raises on the summarization prompt.
\<close>

theorem summarize_conversation_frame:
  "(case summarize_conversation st chat of
      (ev, Inr u) \<Rightarrow>
        upd_messages u = [] \<and> messages (apply_update st u) = messages st \<and>
        length (messages (apply_update st u)) = length (messages st)
    | (ev, Inl e) \<Rightarrow>
        messages_to_summarize st \<noteq> [] \<and>
        chat [HumanMessage (final_summary_prompt (get_summary st) (messages_to_summarize st))
                None]
          = Inl e)"
  by (simp add: summarize_conversation_def Let_def apply_update_def add_messages_Nil
      split: sum.splits)

theorem summarize_conversation_frame_witness:
  "\<exists>ev u. summarize_conversation \<lparr>messages = example_thread, summary = None\<rparr> fixed_chat_model
            = (ev, Inr u) \<and>
          upd_messages u = [] \<and> upd_summary u = Some ''a summary'' \<and>
          messages (apply_update \<lparr>messages = example_thread, summary = None\<rparr> u) = example_thread"
proof -
  have ne: "messages_to_summarize \<lparr>messages = example_thread, summary = None\<rparr> \<noteq> []"
    by (simp add: messages_to_summarize_Nil example_thread_def)
  show ?thesis
    using summarize_conversation_frame
            [where st = "\<lparr>messages = example_thread, summary = None\<rparr>"
               and chat = fixed_chat_model] ne
    by (simp add: summarize_conversation_def Let_def fixed_chat_model_def)
qed

section \<open>One assistant message per turn\<close>




section \<open>The input of the agent\<close>

lemma call_model_explicit:
  "call_model st agent =
     (case agent (messages_for_react_agent_input st) of
        Inl e \<Rightarrow> ([AgentInvoke (messages_for_react_agent_input st)], Inl e)
      | Inr rs \<Rightarrow>
          if rs = [] then ([AgentInvoke (messages_for_react_agent_input st)], Inl IndexError)
          else if is_AIMessage (last rs)
          then ([AgentInvoke (messages_for_react_agent_input st)],
                Inr \<lparr>upd_messages = [last rs], upd_summary = None\<rparr>)
          else ([AgentInvoke (messages_for_react_agent_input st),
                 StError ''ReAct agent did not return an AIMessage as expected.''],
                Inr \<lparr>upd_messages = [AIMessage ''Sorry, I encountered an issue.'' None],
                     upd_summary = None\<rparr>))"
  by (simp add: call_model_def Let_def fallback_message_def split: sum.splits)

lemma run_turn_events:
  "\<exists>rest. fst (run_turn uuid st prompt agent chat) =
     fst (call_model
            (apply_update st \<lparr>upd_messages = [HumanMessage prompt (Some (uuid 0))],
                             upd_summary = None\<rparr>) agent) @ rest"
proof -
  let ?st1 = "apply_update st \<lparr>upd_messages = [HumanMessage prompt (Some (uuid 0))],
                             upd_summary = None\<rparr>"
  obtain ev1 r1 where c: "call_model ?st1 agent = (ev1, r1)"
    by (cases "call_model ?st1 agent")
  show ?thesis
  proof (cases r1)
    case (Inl e)
    with c show ?thesis by (simp add: run_turn_def Let_def)
  next
    case (Inr u1)
    with c show ?thesis
      by (simp add: run_turn_def Let_def split: prod.splits sum.splits)
  qed
qed

text \<open>
  Claim C3. \<^verbatim>\<open>call_model\<close> applies the agent to one input and to nothing else, and its
  return value is read off the agent's answer to that input. The input is: one system
  message with the text ``Here is a summary of the conversation so far: \<open>summary\<close>. Use
  this to inform your response.'' exactly when the summary is not empty, followed by a
  window that is the end of the thread, in the thread's order, of 5 messages or of all
  the messages when the thread has fewer. In a turn the node runs on the thread with
  the new user message at its end, so the window ends with that message.
\<close>

theorem call_model_agent_input:
  "(\<exists>window older.
      messages st = older @ window \<and>
      length window = min 5 (length (messages st)) \<and>
      (let agent_input =
             (if get_summary st = [] then []
              else [SystemMessage
                      (''Here is a summary of the conversation so far: '' @ get_summary st @
                       ''. Use this to inform your response.'') None]) @ window
       in call_model st agent =
            (case agent agent_input of
               Inl e \<Rightarrow> ([AgentInvoke agent_input], Inl e)
             | Inr rs \<Rightarrow>
                 if rs = [] then ([AgentInvoke agent_input], Inl IndexError)
                 else if is_AIMessage (last rs)
                 then ([AgentInvoke agent_input],
                       Inr \<lparr>upd_messages = [last rs], upd_summary = None\<rparr>)
                 else ([AgentInvoke agent_input,
                        StError ''ReAct agent did not return an AIMessage as expected.''],
                       Inr \<lparr>upd_messages = [AIMessage ''Sorry, I encountered an issue.'' None],
                            upd_summary = None\<rparr>)))) \<and>
   (Some (uuid 0) \<notin> msg_id ` set (messages st) \<longrightarrow>
      (\<exists>rest.
         fst (run_turn uuid st prompt agent chat) =
           fst (call_model
                  (st\<lparr>messages := messages st @ [HumanMessage prompt (Some (uuid 0))]\<rparr>)
                  agent) @ rest))"
proof (intro conjI impI)
  obtain older where o: "messages st = older @ slice_last 5 (messages st)"
    using slice_last_suffix by blast
  have l: "length (slice_last 5 (messages st)) = min 5 (length (messages st))"
    by (rule slice_last_length)
  have inp: "messages_for_react_agent_input st =
      (if get_summary st = [] then []
       else [SystemMessage
               (''Here is a summary of the conversation so far: '' @ get_summary st @
                ''. Use this to inform your response.'') None]) @
      slice_last 5 (messages st)"
    by (simp add: messages_for_react_agent_input_def system_message_content_def Let_def)
  have "let agent_input =
             (if get_summary st = [] then []
              else [SystemMessage
                      (''Here is a summary of the conversation so far: '' @ get_summary st @
                       ''. Use this to inform your response.'') None]) @
             slice_last 5 (messages st)
       in call_model st agent =
            (case agent agent_input of
               Inl e \<Rightarrow> ([AgentInvoke agent_input], Inl e)
             | Inr rs \<Rightarrow>
                 if rs = [] then ([AgentInvoke agent_input], Inl IndexError)
                 else if is_AIMessage (last rs)
                 then ([AgentInvoke agent_input],
                       Inr \<lparr>upd_messages = [last rs], upd_summary = None\<rparr>)
                 else ([AgentInvoke agent_input,
                        StError ''ReAct agent did not return an AIMessage as expected.''],
                       Inr \<lparr>upd_messages = [AIMessage ''Sorry, I encountered an issue.'' None],
                            upd_summary = None\<rparr>))"
    unfolding Let_def inp [symmetric] by (rule call_model_explicit)
  with o l show "\<exists>window older.
      messages st = older @ window \<and>
      length window = min 5 (length (messages st)) \<and>
      (let agent_input =
             (if get_summary st = [] then []
              else [SystemMessage
                      (''Here is a summary of the conversation so far: '' @ get_summary st @
                       ''. Use this to inform your response.'') None]) @ window
       in call_model st agent =
            (case agent agent_input of
               Inl e \<Rightarrow> ([AgentInvoke agent_input], Inl e)
             | Inr rs \<Rightarrow>
                 if rs = [] then ([AgentInvoke agent_input], Inl IndexError)
                 else if is_AIMessage (last rs)
                 then ([AgentInvoke agent_input],
                       Inr \<lparr>upd_messages = [last rs], upd_summary = None\<rparr>)
                 else ([AgentInvoke agent_input,
                        StError ''ReAct agent did not return an AIMessage as expected.''],
                       Inr \<lparr>upd_messages = [AIMessage ''Sorry, I encountered an issue.'' None],
                            upd_summary = None\<rparr>)))"
    by blast
next
  assume fresh: "Some (uuid 0) \<notin> msg_id ` set (messages st)"
  show "\<exists>rest.
         fst (run_turn uuid st prompt agent chat) =
           fst (call_model
                  (st\<lparr>messages := messages st @ [HumanMessage prompt (Some (uuid 0))]\<rparr>)
                  agent) @ rest"
    using run_turn_events [of uuid st prompt agent chat]
    unfolding user_message_stored [OF fresh] .
qed

theorem call_model_agent_input_witness:
  "call_model \<lparr>messages = example_thread, summary = Some ''s''\<rparr> echo_agent =
     ([AgentInvoke
         (SystemMessage
            ''Here is a summary of the conversation so far: s. Use this to inform your response.''
            None # drop 3 example_thread)],
      Inr \<lparr>upd_messages = [AIMessage ''ok'' (Some ''run-ok'')], upd_summary = None\<rparr>) \<and>
   (\<exists>rest. fst (run_turn example_uuid \<lparr>messages = take 2 example_thread, summary = None\<rparr>
                  ''u1'' echo_agent fixed_chat_model) =
      AgentInvoke (take 2 example_thread @ [HumanMessage ''u1'' (Some ''uuid-0'')]) # rest)"
proof -
  have f: "Some (example_uuid 0) \<notin>
      msg_id ` set (messages \<lparr>messages = take 2 example_thread, summary = None\<rparr>)"
    by (simp add: example_thread_def example_uuid_def digit_char_def)
  have c: "fst (call_model
      (\<lparr>messages = take 2 example_thread, summary = None\<rparr>
         \<lparr>messages := messages \<lparr>messages = take 2 example_thread, summary = None\<rparr> @
            [HumanMessage ''u1'' (Some (example_uuid 0))]\<rparr>) echo_agent) =
      [AgentInvoke (take 2 example_thread @ [HumanMessage ''u1'' (Some ''uuid-0'')])]"
    by (simp add: call_model_def messages_for_react_agent_input_def Let_def get_summary_def
        slice_last_def echo_agent_def example_thread_def example_uuid_def digit_char_def)
  have a: "call_model \<lparr>messages = example_thread, summary = Some ''s''\<rparr> echo_agent =
     ([AgentInvoke
         (SystemMessage
            ''Here is a summary of the conversation so far: s. Use this to inform your response.''
            None # drop 3 example_thread)],
      Inr \<lparr>upd_messages = [AIMessage ''ok'' (Some ''run-ok'')], upd_summary = None\<rparr>)"
    by (simp add: call_model_def messages_for_react_agent_input_def Let_def get_summary_def
        slice_last_def echo_agent_def example_thread_def system_message_content_def)
  show ?thesis
    using call_model_agent_input
            [where st = "\<lparr>messages = take 2 example_thread, summary = None\<rparr>"
               and uuid = example_uuid and agent = echo_agent and prompt = "''u1''"
               and chat = fixed_chat_model] f a
    unfolding c by simp
qed

section \<open>What the summarizer folds\<close>

lemma summarize_conversation_explicit:
  "summarize_conversation st chat =
     (if messages_to_summarize st = [] then
        ([], Inr \<lparr>upd_messages = [], upd_summary = Some (get_summary st)\<rparr>)
      else
        (case chat [HumanMessage
                      (final_summary_prompt (get_summary st) (messages_to_summarize st)) None] of
           Inl e \<Rightarrow>
             ([ChatModelInvoke
                 [HumanMessage
                    (final_summary_prompt (get_summary st) (messages_to_summarize st)) None]],
              Inl e)
         | Inr c \<Rightarrow>
             ([ChatModelInvoke
                 [HumanMessage
                    (final_summary_prompt (get_summary st) (messages_to_summarize st)) None]],
              Inr \<lparr>upd_messages = [], upd_summary = Some c\<rparr>)))"
  by (simp add: summarize_conversation_def Let_def split: sum.splits)

text \<open>
  Claim C5. \<^verbatim>\<open>summarize_conversation\<close> works on a selection taken from the messages that
  precede the two most recent ones: the selection ends right before those two and
  holds the most recent 10 of the messages before them, or all of them when they are
  fewer. When the selection is empty the node returns the existing summary and makes
  no call of the chat model. Otherwise it calls the chat model once, on the prompt
  built from the existing summary and the selection, and returns the model's text as
  the summary.
\<close>

theorem summarize_conversation_selection:
  "\<exists>older selected current.
     messages st = older @ selected @ current \<and>
     length current = min 2 (length (messages st)) \<and>
     length selected = min 10 (length (messages st) - 2) \<and>
     summarize_conversation st chat =
       (if selected = [] then
          ([], Inr \<lparr>upd_messages = [], upd_summary = Some (get_summary st)\<rparr>)
        else
          (let summary_prompt =
                 join newline
                   ((if get_summary st = [] then []
                     else [''This is the current summary of the conversation: '' @
                           get_summary st @ newline]) @
                    [''Based on the following recent messages:'' @ newline] @
                    map (\<lambda>m. (if is_HumanMessage m then ''User: '' else ''Assistant: '') @
                              content m)
                      (filter (\<lambda>m. is_HumanMessage m \<or> is_AIMessage m) selected) @
                    [newline @
                     ''Please update or create a concise summary of the entire conversation.''])
           in case chat [HumanMessage summary_prompt None] of
                Inl e \<Rightarrow> ([ChatModelInvoke [HumanMessage summary_prompt None]], Inl e)
              | Inr c \<Rightarrow>
                  ([ChatModelInvoke [HumanMessage summary_prompt None]],
                   Inr \<lparr>upd_messages = [], upd_summary = Some c\<rparr>)))"
proof -
  obtain older current where
    p: "messages st = older @ messages_to_summarize st @ current"
       "length current = min 2 (length (messages st))"
    using messages_to_summarize_position by blast
  have l: "length (messages_to_summarize st) = min 10 (length (messages st) - 2)"
    by (rule messages_to_summarize_length)
  have "summarize_conversation st chat =
       (if messages_to_summarize st = [] then
          ([], Inr \<lparr>upd_messages = [], upd_summary = Some (get_summary st)\<rparr>)
        else
          (let summary_prompt =
                 join newline
                   ((if get_summary st = [] then []
                     else [''This is the current summary of the conversation: '' @
                           get_summary st @ newline]) @
                    [''Based on the following recent messages:'' @ newline] @
                    map (\<lambda>m. (if is_HumanMessage m then ''User: '' else ''Assistant: '') @
                              content m)
                      (filter (\<lambda>m. is_HumanMessage m \<or> is_AIMessage m)
                         (messages_to_summarize st)) @
                    [newline @
                     ''Please update or create a concise summary of the entire conversation.''])
           in case chat [HumanMessage summary_prompt None] of
                Inl e \<Rightarrow> ([ChatModelInvoke [HumanMessage summary_prompt None]], Inl e)
              | Inr c \<Rightarrow>
                  ([ChatModelInvoke [HumanMessage summary_prompt None]],
                   Inr \<lparr>upd_messages = [], upd_summary = Some c\<rparr>)))"
    unfolding Let_def final_summary_prompt_explicit [symmetric]
    by (rule summarize_conversation_explicit)
  with p l show ?thesis by blast
qed

theorem summarize_conversation_selection_witness:
  "summarize_conversation \<lparr>messages = take 2 example_thread, summary = Some ''s''\<rparr>
     (\<lambda>prompt_messages. Inl (Raised ''not reached'')) =
     ([], Inr \<lparr>upd_messages = [], upd_summary = Some ''s''\<rparr>) \<and>
   summarize_conversation \<lparr>messages = take 4 example_thread, summary = Some ''s''\<rparr>
     prompt_chat_model =
     ([ChatModelInvoke
         [HumanMessage
            (''This is the current summary of the conversation: s'' @ [CHR 0x0A, CHR 0x0A] @
             ''Based on the following recent messages:'' @ [CHR 0x0A, CHR 0x0A] @
             ''User: u0'' @ [CHR 0x0A] @ ''Assistant: ok'' @ [CHR 0x0A, CHR 0x0A] @
             ''Please update or create a concise summary of the entire conversation.'')
            None]],
      Inr \<lparr>upd_messages = [],
           upd_summary = Some
            (''This is the current summary of the conversation: s'' @ [CHR 0x0A, CHR 0x0A] @
             ''Based on the following recent messages:'' @ [CHR 0x0A, CHR 0x0A] @
             ''User: u0'' @ [CHR 0x0A] @ ''Assistant: ok'' @ [CHR 0x0A, CHR 0x0A] @
             ''Please update or create a concise summary of the entire conversation.'')\<rparr>)"
  using summarize_conversation_selection
          [of "\<lparr>messages = take 2 example_thread, summary = Some ''s''\<rparr>"
              "\<lambda>prompt_messages. Inl (Raised ''not reached'')"]
        summarize_conversation_selection
          [of "\<lparr>messages = take 4 example_thread, summary = Some ''s''\<rparr>" prompt_chat_model]
  by (simp add: summarize_conversation_def messages_to_summarize_def slice_butlast_def
      slice_last_def final_summary_prompt_def get_summary_def newline_def prompt_chat_model_def
      example_thread_def Let_def)

text \<open>
  Claim C10. The prompt that the chat model receives has, between its heading and its
  closing instruction, one line \<open>User: content\<close> for each human message and one line
  \<open>Assistant: content\<close> for each AI message of the selection, in their order, and no
  line for any other message. The cap is taken before, on the selection as a whole,
  whose length is the smaller of 10 and the number of messages before the last two: the
  other messages count towards the 10.
\<close>

theorem summary_prompt_transcript:
  "(messages_to_summarize st \<noteq> [] \<longrightarrow>
      fst (summarize_conversation st chat) =
        [ChatModelInvoke
           [HumanMessage
              (join newline
                 ((if get_summary st = [] then []
                   else [''This is the current summary of the conversation: '' @
                         get_summary st @ newline]) @
                  [''Based on the following recent messages:'' @ newline] @
                  map (\<lambda>m. (if is_HumanMessage m then ''User: '' else ''Assistant: '') @
                            content m)
                    (filter (\<lambda>m. is_HumanMessage m \<or> is_AIMessage m)
                       (messages_to_summarize st)) @
                  [newline @
                   ''Please update or create a concise summary of the entire conversation.'']))
              None]]) \<and>
   length (messages_to_summarize st) = min 10 (length (messages st) - 2) \<and>
   (\<exists>older current.
      messages st = older @ messages_to_summarize st @ current \<and>
      length current = min 2 (length (messages st)))"
proof -
  have "fst (summarize_conversation st chat) =
        [ChatModelInvoke
           [HumanMessage
              (join newline
                 ((if get_summary st = [] then []
                   else [''This is the current summary of the conversation: '' @
                         get_summary st @ newline]) @
                  [''Based on the following recent messages:'' @ newline] @
                  map (\<lambda>m. (if is_HumanMessage m then ''User: '' else ''Assistant: '') @
                            content m)
                    (filter (\<lambda>m. is_HumanMessage m \<or> is_AIMessage m)
                       (messages_to_summarize st)) @
                  [newline @
                   ''Please update or create a concise summary of the entire conversation.'']))
              None]]"
    if "messages_to_summarize st \<noteq> []"
    unfolding final_summary_prompt_explicit [symmetric]
    using that by (simp add: summarize_conversation_explicit split: sum.splits)
  moreover have "length (messages_to_summarize st) = min 10 (length (messages st) - 2)"
    by (rule messages_to_summarize_length)
  moreover have "\<exists>older current.
      messages st = older @ messages_to_summarize st @ current \<and>
      length current = min 2 (length (messages st))"
    by (rule messages_to_summarize_position)
  ultimately show ?thesis by blast
qed

theorem summary_prompt_transcript_witness:
  "fst (summarize_conversation
          \<lparr>messages = [HumanMessage ''q'' (Some ''1''), ToolMessage ''t'' (Some ''2''),
                       SystemMessage ''y'' (Some ''3''), AIMessage ''a'' (Some ''4''),
                       HumanMessage ''r'' (Some ''5''), AIMessage ''b'' (Some ''6'')],
           summary = None\<rparr> fixed_chat_model) =
     [ChatModelInvoke
        [HumanMessage
           (''Based on the following recent messages:'' @ [CHR 0x0A, CHR 0x0A] @
            ''User: q'' @ [CHR 0x0A] @ ''Assistant: a'' @ [CHR 0x0A, CHR 0x0A] @
            ''Please update or create a concise summary of the entire conversation.'')
           None]] \<and>
   length (messages_to_summarize
     \<lparr>messages = replicate 13 (ToolMessage ''t'' (Some ''2'')), summary = None\<rparr>) = 10"
  using summary_prompt_transcript
          [where st = "\<lparr>messages = [HumanMessage ''q'' (Some ''1''), ToolMessage ''t'' (Some ''2''),
                       SystemMessage ''y'' (Some ''3''), AIMessage ''a'' (Some ''4''),
                       HumanMessage ''r'' (Some ''5''), AIMessage ''b'' (Some ''6'')],
           summary = None\<rparr>" and chat = fixed_chat_model]
        summary_prompt_transcript
          [where st = "\<lparr>messages = replicate 13 (ToolMessage ''t'' (Some ''2'')),
                        summary = None\<rparr>" and chat = fixed_chat_model]
  by (simp add: messages_to_summarize_def slice_butlast_def slice_last_def get_summary_def
      newline_def Let_def)




section \<open>Fetching URLs\<close>

lemma fetch_loop_map:
  "fetch_loop env timeout urls results = results @ map (fetch_entry env timeout) urls"
  by (induction urls arbitrary: results) simp_all

lemma fetch_url_content_single:
  "fetch_url_content env [url] timeout = [fetch_entry env timeout url]"
  by (simp add: fetch_url_content_def)

text \<open>
  Claim C7. \<^verbatim>\<open>fetch_url_content\<close> returns one entry per URL, in the order of the URLs,
  and the entry of a URL is the one the tool returns for that URL alone, whatever
  happens on the others. For one URL, the entry is \<open>{url, error}\<close> with the message of
  the exception when the request, the status check, the title, the summary or the
  text extraction raises, and \<open>{url, title, content}\<close> when all of them return. The
  tool has no exception of its own: its value is a list for every input.
\<close>

theorem fetch_url_content_isolated:
  "length (fetch_url_content env urls timeout) = length urls \<and>
   fetch_url_content env urls timeout =
     concat (map (\<lambda>url. fetch_url_content env [url] timeout) urls) \<and>
   (\<forall>url e resp title html text.
      (requests_get env url timeout = Inl e \<longrightarrow>
         fetch_url_content env [url] timeout = [[(''url'', url), (''error'', e)]]) \<and>
      (requests_get env url timeout = Inr resp \<and> raise_for_status env resp = Inl e \<longrightarrow>
         fetch_url_content env [url] timeout = [[(''url'', url), (''error'', e)]]) \<and>
      (requests_get env url timeout = Inr resp \<and> raise_for_status env resp = Inr () \<and>
       doc_title env (resp_text env resp) = Inl e \<longrightarrow>
         fetch_url_content env [url] timeout = [[(''url'', url), (''error'', e)]]) \<and>
      (requests_get env url timeout = Inr resp \<and> raise_for_status env resp = Inr () \<and>
       doc_title env (resp_text env resp) = Inr title \<and>
       doc_summary env (resp_text env resp) = Inl e \<longrightarrow>
         fetch_url_content env [url] timeout = [[(''url'', url), (''error'', e)]]) \<and>
      (requests_get env url timeout = Inr resp \<and> raise_for_status env resp = Inr () \<and>
       doc_title env (resp_text env resp) = Inr title \<and>
       doc_summary env (resp_text env resp) = Inr html \<and>
       soup_get_text env html = Inl e \<longrightarrow>
         fetch_url_content env [url] timeout = [[(''url'', url), (''error'', e)]]) \<and>
      (requests_get env url timeout = Inr resp \<and> raise_for_status env resp = Inr () \<and>
       doc_title env (resp_text env resp) = Inr title \<and>
       doc_summary env (resp_text env resp) = Inr html \<and>
       soup_get_text env html = Inr text \<longrightarrow>
         fetch_url_content env [url] timeout =
           [[(''url'', url), (''title'', title), (''content'', text)]]))"
proof (intro conjI allI)
  show "length (fetch_url_content env urls timeout) = length urls"
    by (simp add: fetch_url_content_def fetch_loop_map)
  have "concat (map (\<lambda>url. [fetch_entry env timeout url]) urls) =
        map (fetch_entry env timeout) urls"
    by (induction urls) simp_all
  then show "fetch_url_content env urls timeout =
     concat (map (\<lambda>url. fetch_url_content env [url] timeout) urls)"
    by (simp add: fetch_url_content_def fetch_loop_map)
qed (simp_all add: fetch_url_content_single fetch_entry_def)

theorem fetch_url_content_isolated_witness:
  "fetch_url_content example_fetch_env [''http://bad.example'', ''http://good.example''] 10 =
     [[(''url'', ''http://bad.example''), (''error'', ''connection refused'')],
      [(''url'', ''http://good.example''), (''title'', ''Title''), (''content'', ''page'')]]"
proof -
  have b: "requests_get example_fetch_env ''http://bad.example'' 10 = Inl ''connection refused''"
    by (simp add: example_fetch_env_def)
  have g: "requests_get example_fetch_env ''http://good.example'' 10 = Inr ''<p>page</p>'' \<and>
      raise_for_status example_fetch_env ''<p>page</p>'' = Inr () \<and>
      doc_title example_fetch_env (resp_text example_fetch_env ''<p>page</p>'') = Inr ''Title'' \<and>
      doc_summary example_fetch_env (resp_text example_fetch_env ''<p>page</p>'') =
        Inr ''<p>page</p>'' \<and>
      soup_get_text example_fetch_env ''<p>page</p>'' = Inr ''page''"
    by (simp add: example_fetch_env_def)
  have s: "fetch_url_content example_fetch_env
             [''http://bad.example'', ''http://good.example''] 10 =
           fetch_url_content example_fetch_env [''http://bad.example''] 10 @
           fetch_url_content example_fetch_env [''http://good.example''] 10"
    using fetch_url_content_isolated
            [of example_fetch_env "[''http://bad.example'', ''http://good.example'']" 10]
    by simp
  have "fetch_url_content example_fetch_env [''http://bad.example''] 10 =
          [[(''url'', ''http://bad.example''), (''error'', ''connection refused'')]]"
    using fetch_url_content_isolated [of example_fetch_env "[]" 10] b by blast
  moreover have "fetch_url_content example_fetch_env [''http://good.example''] 10 =
          [[(''url'', ''http://good.example''), (''title'', ''Title''), (''content'', ''page'')]]"
    using fetch_url_content_isolated [of example_fetch_env "[]" 10] g by blast
  ultimately show ?thesis using s by simp
qed

section \<open>Searching the web\<close>

text \<open>
  Claim C8, as stated, fails on the code. When the search engines find nothing, the
  client raises; \<^verbatim>\<open>search_web\<close> does not catch the exception, so in both modes the tool
  ends with it and returns no result set, empty or not.
\<close>

theorem zero_results_raise:
  "search_web (example_search_env [] True) [earlier_record] ''rust release'' Week =
     ([earlier_record], Inl (Raised ''No results found.'')) \<and>
   search_web (example_search_env [] False) [earlier_record] ''rust release'' Week =
     ([earlier_record], Inl (Raised ''No results found.''))"
  by (simp add: search_web_def DDGS_text_def example_search_env_def)

text \<open>
  Claim C8, amended. When the search engines return zero results, \<^verbatim>\<open>search_web\<close>
  leaves the store as it was and, in both modes, ends with the exception ``No results
  found.'' of the search client.
\<close>

theorem search_web_zero_results:
  "search_engines env query (num_results env) timelimit = Inr [] \<Longrightarrow>
     search_web env s query timelimit = (s, Inl (Raised ''No results found.''))"
  by (simp add: search_web_def DDGS_text_def)

theorem search_web_zero_results_witness:
  "search_web (example_search_env [] False) [] ''rust release'' Week =
     ([], Inl (Raised ''No results found.''))"
  using search_web_zero_results
          [of "example_search_env [] False" "''rust release''" Week "[]"]
  by (simp add: example_search_env_def)

subsection \<open>The modelled store\<close>


lemma store_put_namespace:
  "\<exists>r \<in> set (store_put s ns k v idx). item_namespace r = ns"
proof -
  let ?r = "\<lparr>item_namespace = ns, item_key = k, item_value = v, item_index = idx\<rparr>"
  let ?same = "\<lambda>x. item_namespace x = ns \<and> item_key x = k"
  have "?r \<in> set (store_put s ns k v idx)"
  proof (cases "list_ex ?same s")
    case True
    then obtain x where x: "x \<in> set s" "?same x"
      unfolding list_ex_iff by blast
    have "?r \<in> (\<lambda>x. if ?same x then ?r else x) ` set s"
      by (rule image_eqI [where x = x]) (simp_all add: x)
    moreover have "store_put s ns k v idx = map (\<lambda>x. if ?same x then ?r else x) s"
      using True by (simp add: store_put_def Let_def)
    ultimately show ?thesis by simp
  next
    case False
    then show ?thesis by (simp add: store_put_def Let_def)
  qed
  then show ?thesis by force
qed

lemma store_put_namespace_keeps:
  "\<exists>r \<in> set s. item_namespace r = ns \<Longrightarrow>
     \<exists>r \<in> set (store_put s ns k v idx). item_namespace r = ns"
  using store_put_namespace by blast









section \<open>The ids of the stored messages\<close>

lemma complete_ids_ids: "\<forall>m \<in> set (complete_ids uuid k ms). msg_id m \<noteq> None"
  by (induction ms arbitrary: k) (auto simp add: set_id_simps split: option.splits)

lemma replace_first_set:
  "replace_first i m xs = Some ys \<Longrightarrow> set ys \<subseteq> insert m (set xs)"
  by (induction xs arbitrary: ys) (auto split: if_splits)

lemma merge_message_set: "set (merge_message merged m) \<subseteq> insert m (set merged)"
proof (cases "msg_id m")
  case None
  then show ?thesis by (simp add: merge_message_def)
next
  case (Some i)
  show ?thesis
  proof (cases "replace_first i m (rev merged)")
    case None
    with Some show ?thesis by (simp add: merge_message_def)
  next
    case (Some ys)
    then have "set ys \<subseteq> insert m (set (rev merged))"
      by (rule replace_first_set)
    with Some \<open>msg_id m = Some i\<close> show ?thesis by (simp add: merge_message_def)
  qed
qed

lemma add_messages_set: "set (add_messages left right) \<subseteq> set left \<union> set right"
  unfolding add_messages_def
proof (induction right arbitrary: left)
  case Nil
  then show ?case by simp
next
  case (Cons m ms)
  have "set (foldl merge_message (merge_message left m) ms) \<subseteq>
        set (merge_message left m) \<union> set ms"
    by (rule Cons.IH)
  with merge_message_set [of left m] show ?case by auto
qed

text \<open>The stored messages keep their ids over a turn.\<close>

lemma run_turn_ids:
  assumes "\<forall>m \<in> set (messages st). msg_id m \<noteq> None"
  shows "\<forall>m \<in> set (messages (fst (snd (run_turn uuid st prompt agent chat)))). msg_id m \<noteq> None"
proof -
  let ?st1 = "apply_update st \<lparr>upd_messages = complete_ids uuid 0 [HumanMessage prompt None],
                               upd_summary = None\<rparr>"
  have s1: "\<forall>m \<in> set (messages ?st1). msg_id m \<noteq> None"
    using assms add_messages_set [of "messages st" "[HumanMessage prompt (Some (uuid 0))]"]
    by (auto simp add: apply_update_def)
  obtain ev1 r1 where c: "call_model ?st1 agent = (ev1, r1)"
    by (cases "call_model ?st1 agent")
  show ?thesis
  proof (cases r1)
    case (Inl e)
    with c s1 show ?thesis by (simp add: run_turn_def Let_def)
  next
    case (Inr u1)
    let ?st2 = "apply_update ?st1 (u1\<lparr>upd_messages := complete_ids uuid 1 (upd_messages u1)\<rparr>)"
    have s2: "\<forall>m \<in> set (messages ?st2). msg_id m \<noteq> None"
      using s1 complete_ids_ids [of uuid 1 "upd_messages u1"]
        add_messages_set [of "messages ?st1" "complete_ids uuid 1 (upd_messages u1)"]
      by (auto simp add: apply_update_def)
    obtain ev2 r where ac: "after_conversation ?st2 chat = (ev2, r)"
      by (cases "after_conversation ?st2 chat")
    show ?thesis
    proof (cases r)
      case (Inl e)
      with c Inr ac s2 show ?thesis by (simp add: run_turn_def Let_def)
    next
      case (Inr st3)
      with ac have "messages st3 = messages ?st2"
        using after_conversation_messages by blast
      with c \<open>r1 = Inr u1\<close> ac Inr s2 show ?thesis by (simp add: run_turn_def Let_def)
    qed
  qed
qed

end
